theory Spec2Isabelle
  imports Main
begin

section \<open>Values, exceptions and the outside world\<close>

text \<open>
  The program is \<^verbatim>\<open>src/pubmed_client.py\<close>. Python values that the program handles are
  modelled by small datatypes; every exception is a value of \<open>exn\<close>, and a function
  that may raise returns \<open>exn + 'a\<close> (\<open>Inl\<close> is the raised exception).
  Strings are \<open>string\<close>, one \<open>char\<close> per code point below 256.
\<close>

datatype pyval = PNone | PStr string | PInt int | PList "string list"

datatype json =
    JNull | JBool bool | JNum int | JStr string | JArr "json list" | JObj "(string \<times> json) list"

datatype element = Element (tag: string) (text_of: "string option") (children: "element list")

datatype exn =
    HTTPError string
  | RuntimeError string
  | ValueError string
  | KeyError string
  | AttributeError string
  | TypeError string
  | OSError string
  | ParseError string
  | LookupError string
  | OtherError string

datatype level = DEBUG | INFO | WARNING | ERROR

record response =
  status_code :: int
  content :: string

type_synonym pydict = "(string \<times> pyval) list"

text \<open>
  What the program changes outside itself: the requests it issued (url, parameters,
  timeout), the pauses it made with \<^verbatim>\<open>time.sleep\<close>, the log records it emitted, and the
  files it wrote, a file being the rows handed to the \<^verbatim>\<open>csv\<close> writer.
\<close>

record world =
  requests :: "(string \<times> pydict \<times> int) list"
  sleeps :: "int list"
  logs :: "(level \<times> string) list"
  files :: "string \<rightharpoonup> string list list"

text \<open>
  The libraries and the network are parameters: \<open>httpx_get n url params\<close> is what the
  \<open>n\<close>-th request of the run (counted from 0) does, a raised exception or a response;
  \<open>status_error_text\<close> is the text of the \<^verbatim>\<open>HTTPStatusError\<close> of a response;
  \<open>ET_fromstring\<close> is the XML parser, which returns the root or raises: a
  \<^verbatim>\<open>ParseError\<close> on a body that is not well-formed, and other exceptions as well
  (a \<^verbatim>\<open>ValueError\<close> or a \<^verbatim>\<open>LookupError\<close> on an encoding declaration it cannot handle);
  \<open>json_loads\<close> the JSON decoder, \<open>open_ok\<close> says whether a file can be opened for
  writing and \<open>py_str_list\<close> is \<^verbatim>\<open>str\<close> on a list of strings.
\<close>

record libs =
  httpx_get :: "nat \<Rightarrow> string \<Rightarrow> pydict \<Rightarrow> exn + response"
  status_error_text :: "response \<Rightarrow> string"
  ET_fromstring :: "string \<Rightarrow> exn + element"
  json_loads :: "string \<Rightarrow> json option"
  open_ok :: "string \<Rightarrow> bool"
  py_str_list :: "string list \<Rightarrow> string"

definition log_msg :: "level \<Rightarrow> string \<Rightarrow> world \<Rightarrow> world" where
  "log_msg l m w = w\<lparr>logs := logs w @ [(l, m)]\<rparr>"

subsection \<open>Formatting an integer, as an f-string does\<close>

fun digits_of :: "nat \<Rightarrow> string" where
  "digits_of n =
     (if n < 10 then [''0123456789'' ! n]
      else digits_of (n div 10) @ [''0123456789'' ! (n mod 10)])"

declare digits_of.simps [simp del]

definition py_str_int :: "int \<Rightarrow> string" where
  "py_str_int i = (if i < 0 then ''-'' @ digits_of (nat (- i)) else digits_of (nat i))"

section \<open>The retrying request executor\<close>

definition BASE_URL :: string where
  "BASE_URL = ''https://eutils.ncbi.nlm.nih.gov/entrez/eutils''"

text \<open>\<^verbatim>\<open>response.raise_for_status()\<close>: a status outside 200..299 raises an
  \<^verbatim>\<open>HTTPStatusError\<close>, which is an \<^verbatim>\<open>httpx.HTTPError\<close>.\<close>

definition raise_for_status :: "libs \<Rightarrow> response \<Rightarrow> exn + response" where
  "raise_for_status L r =
     (if 200 \<le> status_code r \<and> status_code r \<le> 299 then Inr r
      else Inl (HTTPError (status_error_text L r)))"

text \<open>The body of the \<^verbatim>\<open>try\<close> block when it issues the \<open>n\<close>-th request of the run.\<close>

definition attempt_result :: "libs \<Rightarrow> string \<Rightarrow> pydict \<Rightarrow> nat \<Rightarrow> exn + response" where
  "attempt_result L url params n =
     (case httpx_get L n url params of
        Inl e \<Rightarrow> Inl e
      | Inr r \<Rightarrow> raise_for_status L r)"

text \<open>\<^verbatim>\<open>except httpx.HTTPError as e\<close>: the text of the exception when it is caught.\<close>

fun caught :: "exn \<Rightarrow> string option" where
  "caught (HTTPError m) = Some m"
| "caught _ = None"

definition exhausted :: exn where
  "exhausted = RuntimeError ''Failed to connect to PubMed API after multiple retries.''"

definition failure_text :: "int \<Rightarrow> int \<Rightarrow> string \<Rightarrow> string" where
  "failure_text attempt retries m =
     ''Request failed (attempt '' @ py_str_int (attempt + 1) @ ''/'' @ py_str_int retries
       @ ''): '' @ m"

text \<open>The loop \<^verbatim>\<open>for attempt in range(retries)\<close>, from \<open>attempt\<close> on, and the
  \<^verbatim>\<open>raise\<close> after it. \<^verbatim>\<open>time.sleep\<close> raises \<^verbatim>\<open>ValueError\<close> on a negative length.\<close>

function safe_request_from ::
  "libs \<Rightarrow> string \<Rightarrow> pydict \<Rightarrow> int \<Rightarrow> int \<Rightarrow> int \<Rightarrow> world \<Rightarrow> (exn + response) \<times> world" where
  "safe_request_from L url params retries delay attempt w =
     (if attempt < retries then
        (let w1 = w\<lparr>requests := requests w @ [(url, params, 10)]\<rparr> in
         case attempt_result L url params (length (requests w)) of
           Inr r \<Rightarrow> (Inr r, w1)
         | Inl e \<Rightarrow>
             (case caught e of
                None \<Rightarrow> (Inl e, w1)
              | Some m \<Rightarrow>
                  (let w2 = log_msg WARNING (failure_text attempt retries m) w1 in
                   if delay < 0 then (Inl (ValueError ''sleep length must be non-negative''), w2)
                   else safe_request_from L url params retries delay (attempt + 1)
                          (w2\<lparr>sleeps := sleeps w2 @ [delay]\<rparr>))))
      else (Inl exhausted, w))"
  by pat_completeness auto
termination
  by (relation "measure (\<lambda>(L, url, params, retries, delay, attempt, w). nat (retries - attempt))")
     auto

declare safe_request_from.simps [simp del]

definition safe_request ::
  "libs \<Rightarrow> string \<Rightarrow> pydict \<Rightarrow> int \<Rightarrow> int \<Rightarrow> world \<Rightarrow> (exn + response) \<times> world" where
  "safe_request L url params retries delay w = safe_request_from L url params retries delay 0 w"

text \<open>An attempt fails when the \<^verbatim>\<open>except\<close> clause catches what it raised.\<close>

definition attempt_fails :: "libs \<Rightarrow> string \<Rightarrow> pydict \<Rightarrow> nat \<Rightarrow> bool" where
  "attempt_fails L url params n =
     (case attempt_result L url params n of Inl e \<Rightarrow> caught e \<noteq> None | Inr r \<Rightarrow> False)"

section \<open>The search operation\<close>

text \<open>\<^verbatim>\<open>str.isspace\<close> on the code points below 256, and \<^verbatim>\<open>str.strip()\<close>.\<close>

definition py_isspace :: "char \<Rightarrow> bool" where
  "py_isspace c =
     (let n = (of_char c :: nat)
      in (9 \<le> n \<and> n \<le> 13) \<or> (28 \<le> n \<and> n \<le> 32) \<or> n = 133 \<or> n = 160)"

definition strip :: "string \<Rightarrow> string" where
  "strip s = rev (dropWhile py_isspace (rev (dropWhile py_isspace s)))"

fun type_name :: "json \<Rightarrow> string" where
  "type_name JNull = ''NoneType''"
| "type_name (JBool b) = ''bool''"
| "type_name (JNum n) = ''int''"
| "type_name (JStr s) = ''str''"
| "type_name (JArr xs) = ''list''"
| "type_name (JObj kvs) = ''dict''"

definition quoted :: "string \<Rightarrow> string" where
  "quoted s = CHR 0x27 # s @ [CHR 0x27]"

text \<open>\<^verbatim>\<open>d.get(k, default)\<close> on a decoded JSON value: only a dict has \<^verbatim>\<open>get\<close>.\<close>

definition py_get :: "json \<Rightarrow> string \<Rightarrow> json \<Rightarrow> exn + json" where
  "py_get d k dflt =
     (case d of
        JObj kvs \<Rightarrow> Inr (case map_of kvs k of Some v \<Rightarrow> v | None \<Rightarrow> dflt)
      | _ \<Rightarrow> Inl (AttributeError (quoted (type_name d) @ '' object has no attribute ''
                                  @ quoted ''get'')))"

fun json_truthy :: "json \<Rightarrow> bool" where
  "json_truthy JNull = False"
| "json_truthy (JBool b) = b"
| "json_truthy (JNum n) = (n \<noteq> 0)"
| "json_truthy (JStr s) = (s \<noteq> [])"
| "json_truthy (JArr xs) = (xs \<noteq> [])"
| "json_truthy (JObj kvs) = (kvs \<noteq> [])"

definition search_params :: "string \<Rightarrow> int \<Rightarrow> pydict" where
  "search_params query max_results =
     [(''db'', PStr ''pubmed''), (''term'', PStr query), (''retmax'', PInt max_results),
      (''retmode'', PStr ''json'')]"

text \<open>\<^verbatim>\<open>search_papers\<close> returns whatever the payload holds under
  \<^verbatim>\<open>esearchresult.idlist\<close>; \<^verbatim>\<open>response.json()\<close> raises a \<^verbatim>\<open>ValueError\<close> on a body
  that is not JSON.\<close>

definition search_papers :: "libs \<Rightarrow> string \<Rightarrow> int \<Rightarrow> world \<Rightarrow> (exn + json) \<times> world" where
  "search_papers L query max_results w =
     (if strip query = [] then (Inr (JArr []), log_msg ERROR ''Search query cannot be empty.'' w)
      else
        (let search_url = BASE_URL @ ''/esearch.fcgi'';
             params = search_params query max_results
         in case safe_request L search_url params 3 2 w of
              (Inl e, w1) \<Rightarrow> (Inl e, w1)
            | (Inr response, w1) \<Rightarrow>
                (case json_loads L (content response) of
                   None \<Rightarrow> (Inl (ValueError ''JSONDecodeError''), w1)
                 | Some data \<Rightarrow>
                     (case py_get data ''esearchresult'' (JObj []) of
                        Inl e \<Rightarrow> (Inl e, w1)
                      | Inr res \<Rightarrow>
                          (case py_get res ''idlist'' (JArr []) of
                             Inl e \<Rightarrow> (Inl e, w1)
                           | Inr paper_ids \<Rightarrow>
                               (Inr paper_ids,
                                if \<not> json_truthy paper_ids
                                then log_msg INFO ''No papers found for the given query.'' w1
                                else w1))))))"

section \<open>The detail extractor\<close>

text \<open>\<^verbatim>\<open>Element.iter()\<close>: the element and its descendants in document order.\<close>

fun iter :: "element \<Rightarrow> element list" where
  "iter (Element t x cs) = Element t x cs # concat (map iter cs)"

definition descendants :: "element \<Rightarrow> element list" where
  "descendants e = concat (map iter (children e))"

text \<open>The ElementPath expressions of the program: \<^verbatim>\<open>Tag\<close> selects the children with
  that tag, \<^verbatim>\<open>.//Tag\<close> the descendants with that tag (never the element itself), and
  \<^verbatim>\<open>.//A/B\<close> is the two steps one after the other.\<close>

datatype step = Child string | Descendant string

fun select :: "step \<Rightarrow> element \<Rightarrow> element list" where
  "select (Child t) e = filter (\<lambda>c. tag c = t) (children e)"
| "select (Descendant t) e = filter (\<lambda>d. tag d = t) (descendants e)"

fun iterfind :: "step list \<Rightarrow> element list \<Rightarrow> element list" where
  "iterfind [] es = es"
| "iterfind (s # ss) es = iterfind ss (concat (map (select s) es))"

definition findall :: "step list \<Rightarrow> element \<Rightarrow> element list" where
  "findall path e = iterfind path [e]"

text \<open>\<^verbatim>\<open>findtext\<close>: the text of the first match, the empty string when that element
  has no text, \<^verbatim>\<open>None\<close> when nothing matches.\<close>

definition element_text :: "element \<Rightarrow> string" where
  "element_text e = (case text_of e of None \<Rightarrow> [] | Some s \<Rightarrow> s)"

definition findtext :: "step list \<Rightarrow> element \<Rightarrow> string option" where
  "findtext path e = (case findall path e of [] \<Rightarrow> None | m # ms \<Rightarrow> Some (element_text m))"

text \<open>Truth of an optional string: \<open>truthy x\<close> is \<open>x\<close> when Python takes it for true,
  and \<open>None\<close> for \<^verbatim>\<open>None\<close> and for the empty string. \<open>py_or\<close> is \<^verbatim>\<open>x or y\<close>.\<close>

fun truthy :: "string option \<Rightarrow> string option" where
  "truthy None = None"
| "truthy (Some s) = (if s = [] then None else Some s)"

definition py_or :: "string option \<Rightarrow> string option \<Rightarrow> string option" where
  "py_or x y = (case truthy x of Some s \<Rightarrow> Some s | None \<Rightarrow> y)"

fun optional :: "string option \<Rightarrow> pyval" where
  "optional None = PNone"
| "optional (Some s) = PStr s"

text \<open>The body of \<^verbatim>\<open>for author in root.findall(".//Author")\<close>, on the two lists it
  appends to.\<close>

definition author_step :: "string list \<times> string list \<Rightarrow> element \<Rightarrow> string list \<times> string list" where
  "author_step acc author =
     (let collective_name = findtext [Child ''CollectiveName''] author;
          last_name = findtext [Child ''LastName''] author;
          fore_name = findtext [Child ''ForeName''] author;
          authors =
            (case truthy collective_name of
               Some cn \<Rightarrow> fst acc @ [cn]
             | None \<Rightarrow>
                 (case truthy last_name of
                    None \<Rightarrow> fst acc
                  | Some ln \<Rightarrow>
                      (case truthy fore_name of
                         None \<Rightarrow> fst acc
                       | Some fn \<Rightarrow> fst acc @ [fn @ '' '' @ ln])));
          affiliation = findtext [Descendant ''AffiliationInfo'', Child ''Affiliation''] author;
          affiliations =
            (case truthy affiliation of
               Some a \<Rightarrow> snd acc @ [a]
             | None \<Rightarrow> snd acc)
      in (authors, affiliations))"

definition paper_details :: "string \<Rightarrow> element \<Rightarrow> pydict" where
  "paper_details paper_id root =
     (let lists = foldl author_step ([], []) (findall [Descendant ''Author''] root)
      in [(''id'', PStr paper_id),
          (''title'', optional (findtext [Descendant ''ArticleTitle''] root)),
          (''date'', optional (py_or (findtext [Descendant ''PubDate'', Child ''Year''] root)
                                     (findtext [Descendant ''MedlineDate''] root))),
          (''authors'', PList (fst lists)),
          (''affiliations'', PList (snd lists)),
          (''corresponding_email'',
             optional (findtext [Descendant ''AffiliationInfo'', Child ''Email''] root))])"

text \<open>\<^verbatim>\<open>except ET.ParseError as e\<close>: the text of the exception when it is caught.\<close>

fun parse_error :: "exn \<Rightarrow> string option" where
  "parse_error (ParseError m) = Some m"
| "parse_error _ = None"

definition fetch_params :: "string \<Rightarrow> pydict" where
  "fetch_params paper_id = [(''db'', PStr ''pubmed''), (''id'', PStr paper_id), (''retmode'', PStr ''xml'')]"

definition fetch_paper_details :: "libs \<Rightarrow> string \<Rightarrow> world \<Rightarrow> (exn + pydict) \<times> world" where
  "fetch_paper_details L paper_id w =
     (let fetch_url = BASE_URL @ ''/efetch.fcgi'';
          params = fetch_params paper_id
      in case safe_request L fetch_url params 3 2 w of
           (Inl e, w1) \<Rightarrow> (Inl e, w1)
         | (Inr response, w1) \<Rightarrow>
             (case ET_fromstring L (content response) of
                Inl e \<Rightarrow>
                  (case parse_error e of
                     None \<Rightarrow> (Inl e, w1)
                   | Some m \<Rightarrow>
                       (Inr [],
                        log_msg ERROR (''Error parsing XML for paper '' @ paper_id @ '': '' @ m) w1))
              | Inr root \<Rightarrow> (Inr (paper_details paper_id root), w1)))"

text \<open>The comprehension of the main program,
  \<^verbatim>\<open>[client.fetch_paper_details(paper_id) for paper_id in paper_ids]\<close>.\<close>

fun fetch_each :: "libs \<Rightarrow> string list \<Rightarrow> world \<Rightarrow> (exn + pydict list) \<times> world" where
  "fetch_each L [] w = (Inr [], w)"
| "fetch_each L (paper_id # paper_ids) w =
     (case fetch_paper_details L paper_id w of
        (Inl e, w1) \<Rightarrow> (Inl e, w1)
      | (Inr paper, w1) \<Rightarrow>
          (case fetch_each L paper_ids w1 of
             (Inl e, w2) \<Rightarrow> (Inl e, w2)
           | (Inr papers, w2) \<Rightarrow> (Inr (paper # papers), w2)))"

section \<open>The exporter\<close>

definition getitem :: "pydict \<Rightarrow> string \<Rightarrow> exn + pyval" where
  "getitem d k = (case map_of d k of None \<Rightarrow> Inl (KeyError k) | Some v \<Rightarrow> Inr v)"

fun join :: "string \<Rightarrow> string list \<Rightarrow> string" where
  "join sep [] = []"
| "join sep [x] = x"
| "join sep (x # y # ys) = x @ sep @ join sep (y # ys)"

text \<open>\<^verbatim>\<open>sep.join(v)\<close>: a string is iterated character by character; \<^verbatim>\<open>None\<close> and an
  integer are not iterable.\<close>

fun py_join :: "string \<Rightarrow> pyval \<Rightarrow> exn + pyval" where
  "py_join sep (PList xs) = Inr (PStr (join sep xs))"
| "py_join sep (PStr s) = Inr (PStr (join sep (map (\<lambda>c. [c]) s)))"
| "py_join sep v = Inl (TypeError ''can only join an iterable'')"

fun pyval_truthy :: "pyval \<Rightarrow> bool" where
  "pyval_truthy PNone = False"
| "pyval_truthy (PStr s) = (s \<noteq> [])"
| "pyval_truthy (PInt n) = (n \<noteq> 0)"
| "pyval_truthy (PList xs) = (xs \<noteq> [])"

definition bind_exn :: "exn + 'a \<Rightarrow> ('a \<Rightarrow> exn + 'b) \<Rightarrow> exn + 'b" where
  "bind_exn m f = (case m of Inl e \<Rightarrow> Inl e | Inr x \<Rightarrow> f x)"

definition headers :: "string list" where
  "headers = [''id'', ''title'', ''date'', ''authors'', ''affiliations'', ''corresponding_email'']"

text \<open>The dict literal handed to \<^verbatim>\<open>writer.writerow\<close>, its values in the order of
  \<open>headers\<close>; they are evaluated from top to bottom and the first failure is raised.\<close>

definition row_of :: "pydict \<Rightarrow> exn + pyval list" where
  "row_of paper =
     bind_exn (getitem paper ''id'') (\<lambda>i.
     bind_exn (getitem paper ''title'') (\<lambda>t.
     bind_exn (getitem paper ''date'') (\<lambda>d.
     bind_exn (getitem paper ''authors'') (\<lambda>a.
     bind_exn (py_join ''; '' a) (\<lambda>authors.
     bind_exn (getitem paper ''affiliations'') (\<lambda>f.
     bind_exn (py_join ''; '' f) (\<lambda>affiliations.
     bind_exn (getitem paper ''corresponding_email'') (\<lambda>e.
       Inr [i, t, d, authors, affiliations, if pyval_truthy e then e else PStr ''N/A'']))))))))"

text \<open>What the \<^verbatim>\<open>csv\<close> writer puts in a cell: nothing for \<^verbatim>\<open>None\<close>, a string as it
  is, \<^verbatim>\<open>str\<close> of anything else.\<close>

fun csv_cell :: "libs \<Rightarrow> pyval \<Rightarrow> string" where
  "csv_cell L PNone = []"
| "csv_cell L (PStr s) = s"
| "csv_cell L (PInt n) = py_str_int n"
| "csv_cell L (PList xs) = py_str_list L xs"

text \<open>The loop \<^verbatim>\<open>for paper in papers\<close> on the rows written so far; an exception leaves
  the loop with the rows that were written before it.\<close>

fun write_rows :: "libs \<Rightarrow> pydict list \<Rightarrow> string list list \<Rightarrow> exn option \<times> string list list" where
  "write_rows L [] rows = (None, rows)"
| "write_rows L (paper # papers) rows =
     (case row_of paper of
        Inl e \<Rightarrow> (Some e, rows)
      | Inr cells \<Rightarrow> write_rows L papers (rows @ [map (csv_cell L) cells]))"

definition save_to_csv :: "libs \<Rightarrow> pydict list \<Rightarrow> string \<Rightarrow> world \<Rightarrow> (exn + unit) \<times> world" where
  "save_to_csv L papers filename w =
     (if papers = [] then (Inr (), log_msg WARNING ''No paper details to save.'' w)
      else if \<not> open_ok L filename then (Inl (OSError filename), w)
      else
        (case write_rows L papers [headers] of
           (Some e, rows) \<Rightarrow> (Inl e, w\<lparr>files := (files w)(filename \<mapsto> rows)\<rparr>)
         | (None, rows) \<Rightarrow>
             (Inr (),
              log_msg INFO (''Results saved to '' @ filename @ ''.'')
                (w\<lparr>files := (files w)(filename \<mapsto> rows)\<rparr>))))"

section \<open>Notions used to state the properties\<close>

subsection \<open>Nodes of a document\<close>

text \<open>The first descendant of the root with a given tag, in document order; the first
  child tagged \<open>b\<close> among the children of the descendants tagged \<open>a\<close>; the text of the
  first child of a node with a given tag; the author nodes of a document.\<close>

definition first_descendant :: "string \<Rightarrow> element \<Rightarrow> element option" where
  "first_descendant t root = find (\<lambda>d. tag d = t) (descendants root)"

definition first_nested :: "string \<Rightarrow> string \<Rightarrow> element \<Rightarrow> element option" where
  "first_nested a b root =
     find (\<lambda>c. tag c = b) (concat (map children (filter (\<lambda>d. tag d = a) (descendants root))))"

definition child_text :: "string \<Rightarrow> element \<Rightarrow> string option" where
  "child_text t a = map_option element_text (find (\<lambda>c. tag c = t) (children a))"

definition author_nodes :: "element \<Rightarrow> element list" where
  "author_nodes root = filter (\<lambda>d. tag d = ''Author'') (descendants root)"

text \<open>What one author node adds to the list of authors: its collective name when that
  is present and not empty; otherwise fore name, a space and last name when both are present
  and not empty; otherwise nothing.\<close>

definition names_from_parts :: "element \<Rightarrow> string list" where
  "names_from_parts a =
     (case child_text ''ForeName'' a of
        None \<Rightarrow> []
      | Some fn \<Rightarrow>
          (case child_text ''LastName'' a of
             None \<Rightarrow> []
           | Some ln \<Rightarrow> if fn \<noteq> [] \<and> ln \<noteq> [] then [fn @ '' '' @ ln] else []))"

definition author_names :: "element \<Rightarrow> string list" where
  "author_names a =
     (case child_text ''CollectiveName'' a of
        None \<Rightarrow> names_from_parts a
      | Some cn \<Rightarrow> if cn \<noteq> [] then [cn] else names_from_parts a)"

subsection \<open>Paper records and their rows\<close>

text \<open>A paper record is a dict with the six keys of the dict that
  \<open>paper_details\<close> builds, each with a value of the type it has there.\<close>

fun is_str :: "pyval \<Rightarrow> bool" where
  "is_str (PStr s) = True"
| "is_str v = False"

fun is_optional_str :: "pyval \<Rightarrow> bool" where
  "is_optional_str PNone = True"
| "is_optional_str (PStr s) = True"
| "is_optional_str v = False"

fun is_str_list :: "pyval \<Rightarrow> bool" where
  "is_str_list (PList xs) = True"
| "is_str_list v = False"

definition has :: "pydict \<Rightarrow> string \<Rightarrow> (pyval \<Rightarrow> bool) \<Rightarrow> bool" where
  "has p k ok = (case map_of p k of None \<Rightarrow> False | Some v \<Rightarrow> ok v)"

definition paper_record :: "pydict \<Rightarrow> bool" where
  "paper_record p \<longleftrightarrow>
     has p ''id'' is_str \<and> has p ''title'' is_optional_str \<and> has p ''date'' is_optional_str
     \<and> has p ''authors'' is_str_list \<and> has p ''affiliations'' is_str_list
     \<and> has p ''corresponding_email'' is_optional_str"

text \<open>The row of a paper record: a string as it is and an empty cell for \<^verbatim>\<open>None\<close>, the
  two lists joined with \<^verbatim>\<open>"; "\<close>, and \<^verbatim>\<open>N/A\<close> for an email that is \<^verbatim>\<open>None\<close> or empty.\<close>

definition text_cell :: "pydict \<Rightarrow> string \<Rightarrow> string" where
  "text_cell p k = (case map_of p k of Some (PStr s) \<Rightarrow> s | _ \<Rightarrow> [])"

definition joined_cell :: "pydict \<Rightarrow> string \<Rightarrow> string" where
  "joined_cell p k = (case map_of p k of Some (PList xs) \<Rightarrow> join ''; '' xs | _ \<Rightarrow> [])"

definition email_cell :: "pydict \<Rightarrow> string" where
  "email_cell p =
     (case map_of p ''corresponding_email'' of
        Some (PStr s) \<Rightarrow> if s = [] then ''N/A'' else s
      | _ \<Rightarrow> ''N/A'')"

definition expected_row :: "pydict \<Rightarrow> string list" where
  "expected_row p =
     [text_cell p ''id'', text_cell p ''title'', text_cell p ''date'',
      joined_cell p ''authors'', joined_cell p ''affiliations'', email_cell p]"

subsection \<open>The specification's wording\<close>

text \<open>Three notions as the specification words them, to be compared with the program:
  an author node with a collective-name field adds the value of that field, whatever it is,
  and one with a fore name and a last name adds the two, whatever they are; the date is the
  text of the first publication-year node when there is one, and the Medline date only when
  there is none; the first column is called \<^verbatim>\<open>identifier\<close>.\<close>

definition spec_author_names :: "element \<Rightarrow> string list" where
  "spec_author_names a =
     (case child_text ''CollectiveName'' a of
        Some cn \<Rightarrow> [cn]
      | None \<Rightarrow>
          (case child_text ''ForeName'' a of
             None \<Rightarrow> []
           | Some fn \<Rightarrow>
               (case child_text ''LastName'' a of
                  None \<Rightarrow> []
                | Some ln \<Rightarrow> [fn @ '' '' @ ln])))"

definition spec_date :: "element \<Rightarrow> string option" where
  "spec_date root =
     (case first_nested ''PubDate'' ''Year'' root of
        Some y \<Rightarrow> Some (element_text y)
      | None \<Rightarrow> map_option element_text (first_descendant ''MedlineDate'' root))"

definition spec_headers :: "string list" where
  "spec_headers =
     [''identifier'', ''title'', ''date'', ''authors'', ''affiliations'', ''corresponding_email'']"

section \<open>Concrete libraries and inputs\<close>

text \<open>Libraries whose network follows a script, and a world in which nothing has happened yet:
  the inputs at which the theorems below are evaluated.\<close>

definition fresh_world :: world where
  "fresh_world = \<lparr>requests = [], sleeps = [], logs = [], files = Map.empty\<rparr>"

definition scripted_libs ::
  "(nat \<Rightarrow> exn + response) \<Rightarrow> (string \<Rightarrow> exn + element) \<Rightarrow> (string \<Rightarrow> json option) \<Rightarrow> libs" where
  "scripted_libs net xml js =
     \<lparr>httpx_get = (\<lambda>n url params. net n),
      status_error_text = (\<lambda>r. ''status '' @ py_str_int (status_code r)),
      ET_fromstring = xml, json_loads = js, open_ok = (\<lambda>f. True),
      py_str_list = join '', ''\<rparr>"

definition always_fails :: "nat \<Rightarrow> exn + response" where
  "always_fails n = Inl (HTTPError ''timed out'')"

definition third_time_lucky :: "nat \<Rightarrow> exn + response" where
  "third_time_lucky n =
     (if n = 0 then Inl (HTTPError ''timed out'')
      else if n = 1 then Inr \<lparr>status_code = 503, content = []\<rparr>
      else Inr \<lparr>status_code = 200, content = ''ok''\<rparr>)"

definition no_xml :: "string \<Rightarrow> exn + element" where
  "no_xml s = Inl (ParseError ''syntax error: line 1, column 0'')"

definition no_json :: "string \<Rightarrow> json option" where
  "no_json s = None"

definition ok_response :: "string \<Rightarrow> exn + response" where
  "ok_response body = Inr \<lparr>status_code = 200, content = body\<rparr>"

definition search_json :: "string \<Rightarrow> json option" where
  "search_json s =
     (if s = ''two'' then
        Some (JObj [(''header'', JObj [(''type'', JStr ''esearch'')]),
                    (''esearchresult'',
                       JObj [(''count'', JStr ''2''),
                             (''idlist'', JArr [JStr ''31452104'', JStr ''29360040''])])])
      else if s = ''none'' then
        Some (JObj [(''esearchresult'', JObj [(''count'', JStr ''0''), (''idlist'', JArr [])])])
      else if s = ''null'' then
        Some (JObj [(''header'', JObj [(''type'', JStr ''esearch'')]), (''esearchresult'', JNull)])
      else None)"

text \<open>A document with three author nodes: one with an empty collective name and both
  names, one with a collective name only, one with neither; its publication year is empty.
  A parser that knows this document, refuses a body in a multi-byte encoding with a
  \<^verbatim>\<open>ValueError\<close> and everything else with a \<^verbatim>\<open>ParseError\<close>. Two paper records for
  the exporter.\<close>

definition leaf :: "string \<Rightarrow> string \<Rightarrow> element" where
  "leaf t s = Element t (Some s) []"

definition article_xml :: element where
  "article_xml =
     Element ''PubmedArticleSet'' None
       [Element ''PubmedArticle'' None
          [Element ''Article'' None
             [Element ''PubDate'' None [Element ''Year'' None [], leaf ''MedlineDate'' ''2020 Spring''],
              leaf ''ArticleTitle'' ''On retries'',
              Element ''AuthorList'' None
                [Element ''Author'' None
                   [Element ''CollectiveName'' None [], leaf ''LastName'' ''Doe'',
                    leaf ''ForeName'' ''Jane'',
                    Element ''AffiliationInfo'' None
                      [leaf ''Affiliation'' ''Univ. of X'', leaf ''Email'' ''jane@x.org'']],
                 Element ''Author'' None [leaf ''CollectiveName'' ''WHO Group''],
                 Element ''Author'' None [leaf ''Initials'' ''Q'']]]]]"

definition shift_jis_body :: string where
  "shift_jis_body = ''<?xml version='1.0' encoding='shift_jis'?><PubmedArticleSet/>''"

definition one_article :: "string \<Rightarrow> exn + element" where
  "one_article s =
     (if s = ''<PubmedArticleSet>'' then Inr article_xml
      else if s = shift_jis_body then Inl (ValueError ''multi-byte encodings are not supported'')
      else no_xml s)"

definition first_is_garbled :: "nat \<Rightarrow> exn + response" where
  "first_is_garbled n = (if n = 0 then ok_response ''<a>'' else ok_response ''<PubmedArticleSet>'')"

definition garbled_libs :: libs where
  "garbled_libs = scripted_libs first_is_garbled one_article no_json"

definition shift_jis_libs :: libs where
  "shift_jis_libs = scripted_libs (\<lambda>n. ok_response shift_jis_body) one_article no_json"

definition article_libs :: libs where
  "article_libs = scripted_libs (\<lambda>n. ok_response ''<PubmedArticleSet>'') one_article no_json"

definition paper_a :: pydict where
  "paper_a =
     [(''id'', PStr ''31452104''), (''title'', PStr ''On retries''), (''date'', PNone),
      (''authors'', PList [''Jane Doe'', ''WHO Group'']),
      (''affiliations'', PList [''Univ. of X'']), (''corresponding_email'', PNone)]"

definition paper_b :: pydict where
  "paper_b =
     [(''id'', PStr ''29360040''), (''title'', PNone), (''date'', PStr ''2020 Spring''),
      (''authors'', PList []), (''affiliations'', PList []),
      (''corresponding_email'', PStr ''x@y.org'')]"

section \<open>Properties of the retrying request executor\<close>

text \<open>An attempt fails on a transport error that is an \<^verbatim>\<open>httpx.HTTPError\<close> and on
  a response whose status is not a success; nothing else is caught.\<close>

lemma attempt_fails_iff:
  "attempt_fails L url params n \<longleftrightarrow>
     (\<exists>m. httpx_get L n url params = Inl (HTTPError m))
     \<or> (\<exists>r. httpx_get L n url params = Inr r
            \<and> \<not> (200 \<le> status_code r \<and> status_code r \<le> 299))"
proof (cases "httpx_get L n url params")
  case (Inl e)
  then show ?thesis
    by (cases e) (simp_all add: attempt_fails_def attempt_result_def)
next
  case (Inr r)
  then show ?thesis
    by (simp add: attempt_fails_def attempt_result_def raise_for_status_def)
qed

lemma attempt_fails_caught:
  "attempt_fails L url params n \<Longrightarrow>
     \<exists>e m. attempt_result L url params n = Inl e \<and> caught e = Some m"
  by (auto simp: attempt_fails_def split: sum.splits)

text \<open>After \<open>k\<close> failed attempts the loop is at attempt \<open>attempt + k\<close>, has issued \<open>k\<close>
  requests and has slept \<open>k\<close> times.\<close>

lemma safe_request_from_failures:
  assumes "0 \<le> delay"
  shows "k = 0 \<or> int k \<le> retries - attempt \<Longrightarrow>
     \<forall>j<k. attempt_fails L url params (length (requests w) + j) \<Longrightarrow>
     \<exists>w'. safe_request_from L url params retries delay attempt w
            = safe_request_from L url params retries delay (attempt + int k) w'
        \<and> requests w' = requests w @ replicate k (url, params, 10)
        \<and> sleeps w' = sleeps w @ replicate k delay
        \<and> files w' = files w"
proof (induction k arbitrary: attempt w)
  case 0
  show ?case by (rule exI [of _ w]) simp
next
  case (Suc k)
  from Suc.prems(2) have "attempt_fails L url params (length (requests w))"
    by (metis add.right_neutral zero_less_Suc)
  then obtain e m where e: "attempt_result L url params (length (requests w)) = Inl e"
    and m: "caught e = Some m"
    using attempt_fails_caught by blast
  define w2 where "w2 = (log_msg WARNING (failure_text attempt retries m)
      (w\<lparr>requests := requests w @ [(url, params, 10)]\<rparr>))\<lparr>sleeps := sleeps w @ [delay]\<rparr>"
  have lt: "attempt < retries" using Suc.prems(1) by simp
  have step: "safe_request_from L url params retries delay attempt w
      = safe_request_from L url params retries delay (attempt + 1) w2"
    using lt e m assms
    by (subst safe_request_from.simps) (simp add: Let_def w2_def log_msg_def)
  have req2: "requests w2 = requests w @ [(url, params, 10)]"
    and sl2: "sleeps w2 = sleeps w @ [delay]" and f2: "files w2 = files w"
    by (simp_all add: w2_def log_msg_def)
  have "\<forall>j<k. attempt_fails L url params (length (requests w2) + j)"
  proof (intro allI impI)
    fix j assume "j < k"
    then have "Suc j < Suc k" by simp
    then have "attempt_fails L url params (length (requests w) + Suc j)"
      using Suc.prems(2) by blast
    then show "attempt_fails L url params (length (requests w2) + j)"
      by (simp add: req2)
  qed
  moreover have "k = 0 \<or> int k \<le> retries - (attempt + 1)" using Suc.prems(1) by simp
  ultimately obtain w' where
    "safe_request_from L url params retries delay (attempt + 1) w2
       = safe_request_from L url params retries delay (attempt + 1 + int k) w'"
    "requests w' = requests w2 @ replicate k (url, params, 10)"
    "sleeps w' = sleeps w2 @ replicate k delay" "files w' = files w2"
    using Suc.IH by blast
  then show ?case
    using step req2 sl2 f2
    by (intro exI [of _ w']) (simp add: replicate_app_Cons_same add.assoc add.commute add.left_commute)
qed

lemma safe_request_all_fail:
  assumes "0 \<le> delay"
    and "\<forall>j < nat retries. attempt_fails L url params (length (requests w) + j)"
  shows "fst (safe_request L url params retries delay w) = Inl exhausted"
    and "requests (snd (safe_request L url params retries delay w))
           = requests w @ replicate (nat retries) (url, params, 10)"
    and "sleeps (snd (safe_request L url params retries delay w))
           = sleeps w @ replicate (nat retries) delay"
proof -
  have "nat retries = 0 \<or> int (nat retries) \<le> retries - 0" by auto
  from safe_request_from_failures [OF assms(1) this assms(2)]
  obtain w' where w': "safe_request_from L url params retries delay 0 w
            = safe_request_from L url params retries delay (0 + int (nat retries)) w'"
     "requests w' = requests w @ replicate (nat retries) (url, params, 10)"
     "sleeps w' = sleeps w @ replicate (nat retries) delay"
    by blast
  have "\<not> 0 + int (nat retries) < retries" by simp
  then have "safe_request_from L url params retries delay (0 + int (nat retries)) w'
      = (Inl exhausted, w')"
    by (subst safe_request_from.simps) simp
  with w' show "fst (safe_request L url params retries delay w) = Inl exhausted"
    and "requests (snd (safe_request L url params retries delay w))
           = requests w @ replicate (nat retries) (url, params, 10)"
    and "sleeps (snd (safe_request L url params retries delay w))
           = sleeps w @ replicate (nat retries) delay"
    by (simp_all add: safe_request_def)
qed

lemma safe_request_success_after:
  assumes "0 \<le> delay" and "int k < retries"
    and "\<forall>j < k. attempt_fails L url params (length (requests w) + j)"
    and "attempt_result L url params (length (requests w) + k) = Inr r"
  shows "fst (safe_request L url params retries delay w) = Inr r"
    and "requests (snd (safe_request L url params retries delay w))
           = requests w @ replicate (Suc k) (url, params, 10)"
    and "sleeps (snd (safe_request L url params retries delay w))
           = sleeps w @ replicate k delay"
proof -
  have "k = 0 \<or> int k \<le> retries - 0" using assms(2) by simp
  from safe_request_from_failures [OF assms(1) this assms(3)]
  obtain w' where w': "safe_request_from L url params retries delay 0 w
            = safe_request_from L url params retries delay (0 + int k) w'"
     "requests w' = requests w @ replicate k (url, params, 10)"
     "sleeps w' = sleeps w @ replicate k delay"
    by blast
  have "attempt_result L url params (length (requests w')) = Inr r"
    using assms(4) w'(2) by simp
  then have "safe_request_from L url params retries delay (0 + int k) w'
      = (Inr r, w'\<lparr>requests := requests w' @ [(url, params, 10)]\<rparr>)"
    using assms(2) by (subst safe_request_from.simps) simp
  with w' show "fst (safe_request L url params retries delay w) = Inr r"
    and "requests (snd (safe_request L url params retries delay w))
           = requests w @ replicate (Suc k) (url, params, 10)"
    and "sleeps (snd (safe_request L url params retries delay w))
           = sleeps w @ replicate k delay"
    by (simp_all add: safe_request_def replicate_append_same)
qed


text \<open>
  C1, on the input where the code leaves the claim: three attempts that all fail. The
  executor issues three requests and raises the exhaustion error, and it has slept three
  times, once after each failure and so also after the last one, where the claim has
  two pauses.
\<close>

theorem safe_request_sleeps_after_last_failure:
  "fst (safe_request (scripted_libs always_fails no_xml no_json) ''u'' [] 3 2 fresh_world)
     = Inl exhausted
   \<and> length (requests (snd (safe_request (scripted_libs always_fails no_xml no_json)
                               ''u'' [] 3 2 fresh_world))) = 3
   \<and> sleeps (snd (safe_request (scripted_libs always_fails no_xml no_json)
                      ''u'' [] 3 2 fresh_world)) = [2, 2, 2]"
  by (simp add: safe_request_def safe_request_from.simps attempt_result_def scripted_libs_def
        always_fails_def fresh_world_def log_msg_def Let_def)

text \<open>
  C2: when every one of the \<open>retries\<close> attempts fails (a caught transport error or a
  status that is not a success), \<open>safe_request\<close> raises the exhaustion error, so it
  returns no payload at all; when the attempts before attempt \<open>k\<close> fail and attempt
  \<open>k\<close> succeeds, it raises nothing and returns the response of attempt \<open>k\<close>.
\<close>

theorem safe_request_raises_or_returns:
  assumes "0 \<le> delay"
  shows "((\<forall>j < nat retries. attempt_fails L url params (length (requests w) + j))
            \<longrightarrow> fst (safe_request L url params retries delay w) = Inl exhausted)
       \<and> (\<forall>k r. int k < retries
              \<and> (\<forall>j < k. attempt_fails L url params (length (requests w) + j))
              \<and> attempt_result L url params (length (requests w) + k) = Inr r
            \<longrightarrow> fst (safe_request L url params retries delay w) = Inr r)"
  using assms safe_request_all_fail(1) safe_request_success_after(1) by blast

theorem safe_request_raises_or_returns_witness:
  "(0::int) \<le> 2
   \<and> attempt_fails (scripted_libs always_fails no_xml no_json) ''u'' [] 2
   \<and> fst (safe_request (scripted_libs always_fails no_xml no_json) ''u'' [] 3 2 fresh_world)
       = Inl exhausted
   \<and> int 2 < 3
   \<and> attempt_fails (scripted_libs third_time_lucky no_xml no_json) ''u'' [] 0
   \<and> attempt_fails (scripted_libs third_time_lucky no_xml no_json) ''u'' [] 1
   \<and> attempt_result (scripted_libs third_time_lucky no_xml no_json) ''u'' []
        (length (requests fresh_world) + 2) = Inr \<lparr>status_code = 200, content = ''ok''\<rparr>
   \<and> fst (safe_request (scripted_libs third_time_lucky no_xml no_json) ''u'' [] 3 2 fresh_world)
       = Inr \<lparr>status_code = 200, content = ''ok''\<rparr>"
proof -
  have d: "(0::int) \<le> 2" by simp
  have f: "\<forall>j < nat 3. attempt_fails (scripted_libs always_fails no_xml no_json) ''u'' []
                      (length (requests fresh_world) + j)"
    by (simp add: attempt_fails_def attempt_result_def scripted_libs_def always_fails_def)
  have k: "int 2 < 3" by simp
  have g: "\<forall>j < 2. attempt_fails (scripted_libs third_time_lucky no_xml no_json) ''u'' []
                  (length (requests fresh_world) + j)"
    by (simp add: attempt_fails_def attempt_result_def scripted_libs_def third_time_lucky_def
          raise_for_status_def fresh_world_def)
  have r: "attempt_result (scripted_libs third_time_lucky no_xml no_json) ''u'' []
        (length (requests fresh_world) + 2) = Inr \<lparr>status_code = 200, content = ''ok''\<rparr>"
    by (simp add: attempt_result_def scripted_libs_def third_time_lucky_def
          raise_for_status_def fresh_world_def)
  from safe_request_raises_or_returns [OF d, of 3 "scripted_libs always_fails no_xml no_json"
      "''u''" "[]" fresh_world] f
  have a: "fst (safe_request (scripted_libs always_fails no_xml no_json) ''u'' [] 3 2 fresh_world)
       = Inl exhausted" by blast
  from safe_request_raises_or_returns [OF d, of 3 "scripted_libs third_time_lucky no_xml no_json"
      "''u''" "[]" fresh_world] k g r
  have b: "fst (safe_request (scripted_libs third_time_lucky no_xml no_json) ''u'' [] 3 2 fresh_world)
       = Inr \<lparr>status_code = 200, content = ''ok''\<rparr>" by blast
  have "attempt_fails (scripted_libs always_fails no_xml no_json) ''u'' [] 2"
    using f by (simp add: fresh_world_def)
  moreover have "attempt_fails (scripted_libs third_time_lucky no_xml no_json) ''u'' [] 0"
    and "attempt_fails (scripted_libs third_time_lucky no_xml no_json) ''u'' [] 1"
    using g by (simp_all add: fresh_world_def)
  ultimately show ?thesis using d a k r b by blast
qed

section \<open>Properties of the search operation\<close>

lemma dropWhile_all: "(\<forall>c\<in>set (dropWhile P s). P c) \<longleftrightarrow> (\<forall>c\<in>set s. P c)"
proof
  assume a: "\<forall>c\<in>set (dropWhile P s). P c"
  have "dropWhile P s = []"
  proof (rule ccontr)
    assume n: "dropWhile P s \<noteq> []"
    then have "\<not> P (hd (dropWhile P s))" by (rule hd_dropWhile)
    moreover have "hd (dropWhile P s) \<in> set (dropWhile P s)" using n by simp
    ultimately show False using a by blast
  qed
  then show "\<forall>c\<in>set s. P c" by (simp add: dropWhile_eq_Nil_conv)
next
  assume "\<forall>c\<in>set s. P c"
  then show "\<forall>c\<in>set (dropWhile P s). P c" by (meson set_dropWhileD)
qed

lemma strip_empty_iff: "strip s = [] \<longleftrightarrow> (\<forall>c\<in>set s. py_isspace c)"
  by (simp add: strip_def dropWhile_eq_Nil_conv dropWhile_all)

text \<open>
  C7: a query that is empty or consists of whitespace only makes \<open>search_papers\<close> log
  an error and return the empty list; the world changes in its log only, so no request is
  issued, and the result is a value, not an exception.
\<close>

theorem search_papers_blank_query:
  assumes "\<forall>c\<in>set query. py_isspace c"
  shows "search_papers L query max_results w
           = (Inr (JArr []), w\<lparr>logs := logs w @ [(ERROR, ''Search query cannot be empty.'')]\<rparr>)"
  using assms by (simp add: search_papers_def strip_empty_iff log_msg_def)

theorem search_papers_blank_query_witness:
  "py_isspace (CHR 0x09)
   \<and> search_papers (scripted_libs always_fails no_xml no_json) [CHR '' '', CHR 0x09, CHR 0x0A] 10 fresh_world
       = (Inr (JArr []),
          fresh_world\<lparr>logs := logs fresh_world @ [(ERROR, ''Search query cannot be empty.'')]\<rparr>)"
proof -
  have h: "\<forall>c\<in>set [CHR '' '', CHR 0x09, CHR 0x0A]. py_isspace c"
    by (simp add: py_isspace_def)
  from h search_papers_blank_query [OF h] show ?thesis by simp
qed

text \<open>
  C8, as the program has it: for a query that is not blank, when the request succeeds and
  the payload is a JSON object: if its \<^verbatim>\<open>esearchresult\<close> is an object whose
  \<^verbatim>\<open>idlist\<close> holds a non-empty list of identifiers, \<open>search_papers\<close> returns that very
  list (same elements, same order) and logs nothing; if \<^verbatim>\<open>esearchresult\<close> is absent,
  or is an object whose \<^verbatim>\<open>idlist\<close> is absent or the empty list, it logs an informational
  message and returns the empty list. Nothing is raised in either case.
\<close>

theorem search_papers_returns_idlist:
  assumes "strip query \<noteq> []"
    and "safe_request L (BASE_URL @ ''/esearch.fcgi'') (search_params query max_results) 3 2 w
           = (Inr r, w1)"
    and "json_loads L (content r) = Some (JObj payload)"
  shows "(\<forall>res ids. map_of payload ''esearchresult'' = Some (JObj res)
              \<and> map_of res ''idlist'' = Some (JArr ids) \<and> ids \<noteq> []
            \<longrightarrow> search_papers L query max_results w = (Inr (JArr ids), w1))
       \<and> (map_of payload ''esearchresult'' = None
            \<or> (\<exists>res. map_of payload ''esearchresult'' = Some (JObj res)
                  \<and> (map_of res ''idlist'' = None \<or> map_of res ''idlist'' = Some (JArr [])))
          \<longrightarrow> search_papers L query max_results w
                = (Inr (JArr []),
                   w1\<lparr>logs := logs w1 @ [(INFO, ''No papers found for the given query.'')]\<rparr>))"
  using assms
  by (auto simp: search_papers_def py_get_def log_msg_def)

theorem search_papers_returns_idlist_witness:
  "search_papers (scripted_libs (\<lambda>n. ok_response ''two'') no_xml search_json) ''cancer'' 10
       fresh_world
     = (Inr (JArr [JStr ''31452104'', JStr ''29360040'']),
        fresh_world\<lparr>requests := [(BASE_URL @ ''/esearch.fcgi'', search_params ''cancer'' 10, 10)]\<rparr>)
   \<and> search_papers (scripted_libs (\<lambda>n. ok_response ''none'') no_xml search_json) ''cancer'' 10
       fresh_world
     = (Inr (JArr []),
        fresh_world\<lparr>requests := [(BASE_URL @ ''/esearch.fcgi'', search_params ''cancer'' 10, 10)],
                    logs := [(INFO, ''No papers found for the given query.'')]\<rparr>)"
proof -
  let ?w1 = "fresh_world\<lparr>requests := [(BASE_URL @ ''/esearch.fcgi'', search_params ''cancer'' 10, 10)]\<rparr>"
  have q: "strip ''cancer'' \<noteq> []"
    by (simp add: strip_def py_isspace_def)
  have s: "safe_request (scripted_libs (\<lambda>n. ok_response b) no_xml search_json)
             (BASE_URL @ ''/esearch.fcgi'') (search_params ''cancer'' 10) 3 2 fresh_world
           = (Inr \<lparr>status_code = 200, content = b\<rparr>, ?w1)" for b
    by (simp add: safe_request_def safe_request_from.simps attempt_result_def scripted_libs_def
          ok_response_def raise_for_status_def fresh_world_def Let_def)
  have j2: "json_loads (scripted_libs (\<lambda>n. ok_response ''two'') no_xml search_json)
              (content \<lparr>status_code = 200, content = ''two''\<rparr>)
            = Some (JObj [(''header'', JObj [(''type'', JStr ''esearch'')]),
                    (''esearchresult'',
                       JObj [(''count'', JStr ''2''),
                             (''idlist'', JArr [JStr ''31452104'', JStr ''29360040''])])])"
    by (simp add: scripted_libs_def search_json_def)
  have j0: "json_loads (scripted_libs (\<lambda>n. ok_response ''none'') no_xml search_json)
              (content \<lparr>status_code = 200, content = ''none''\<rparr>)
            = Some (JObj [(''esearchresult'', JObj [(''count'', JStr ''0''), (''idlist'', JArr [])])])"
    by (simp add: scripted_libs_def search_json_def)
  have a: "search_papers (scripted_libs (\<lambda>n. ok_response ''two'') no_xml search_json) ''cancer'' 10
       fresh_world = (Inr (JArr [JStr ''31452104'', JStr ''29360040'']), ?w1)"
    using search_papers_returns_idlist [OF q s j2] by simp
  have b: "search_papers (scripted_libs (\<lambda>n. ok_response ''none'') no_xml search_json) ''cancer'' 10
       fresh_world = (Inr (JArr []), ?w1\<lparr>logs := logs ?w1 @ [(INFO, ''No papers found for the given query.'')]\<rparr>)"
    using search_papers_returns_idlist [OF q s j0] by simp
  from a b show ?thesis by (simp add: fresh_world_def)
qed

text \<open>
  C8 as worded fails on a payload that has no identifier list because its
  \<^verbatim>\<open>esearchresult\<close> is \<^verbatim>\<open>null\<close>: the default of \<^verbatim>\<open>get\<close> stands in for a key that is
  missing, not for a value that is no dict, and \<open>search_papers\<close> raises an
  \<^verbatim>\<open>AttributeError\<close> where the wording has the empty list and no exception.
\<close>

theorem search_papers_returns_idlist_counterexample:
  "search_papers (scripted_libs (\<lambda>n. ok_response ''null'') no_xml search_json) ''cancer'' 10
       fresh_world
     = (Inl (AttributeError (quoted ''NoneType'' @ '' object has no attribute '' @ quoted ''get'')),
        fresh_world\<lparr>requests := [(BASE_URL @ ''/esearch.fcgi'', search_params ''cancer'' 10, 10)]\<rparr>)"
  by (simp add: search_papers_def strip_def py_isspace_def safe_request_def
        safe_request_from.simps attempt_result_def scripted_libs_def ok_response_def
        raise_for_status_def fresh_world_def Let_def search_json_def py_get_def)

section \<open>Properties of the detail extractor\<close>

text \<open>An exception of the parser that is no \<^verbatim>\<open>ParseError\<close> leaves
  \<open>fetch_paper_details\<close>, and with it the comprehension over the identifiers.\<close>

lemma fetch_paper_details_parser_raises:
  assumes "safe_request L (BASE_URL @ ''/efetch.fcgi'') (fetch_params paper_id) 3 2 w = (Inr r, w1)"
    and "ET_fromstring L (content r) = Inl x" and "parse_error x = None"
  shows "fetch_paper_details L paper_id w = (Inl x, w1)"
    and "fetch_each L (paper_id # paper_ids) w = (Inl x, w1)"
  using assms by (simp_all add: fetch_paper_details_def)

text \<open>
  C6, as the program has it: for every identifier, when the parser raises a
  \<^verbatim>\<open>ParseError\<close> on the body of the response, \<open>fetch_paper_details\<close> logs an error and
  returns the empty record as a value, so the \<^verbatim>\<open>ParseError\<close> does not leave it; the
  comprehension over the identifiers therefore goes on with the remaining identifiers and
  keeps the empty record in its place.
\<close>

theorem fetch_paper_details_parse_error:
  assumes "safe_request L (BASE_URL @ ''/efetch.fcgi'') (fetch_params paper_id) 3 2 w = (Inr r, w1)"
    and "ET_fromstring L (content r) = Inl (ParseError e)"
  shows "fetch_paper_details L paper_id w
           = (Inr [], w1\<lparr>logs := logs w1
                @ [(ERROR, ''Error parsing XML for paper '' @ paper_id @ '': '' @ e)]\<rparr>)
       \<and> fetch_each L (paper_id # paper_ids) w
           = (case fetch_each L paper_ids
                     (w1\<lparr>logs := logs w1
                        @ [(ERROR, ''Error parsing XML for paper '' @ paper_id @ '': '' @ e)]\<rparr>) of
                (Inl x, w2) \<Rightarrow> (Inl x, w2)
              | (Inr papers, w2) \<Rightarrow> (Inr ([] # papers), w2))"
  using assms by (simp add: fetch_paper_details_def log_msg_def)

text \<open>At a batch of two identifiers whose first response is not well-formed and whose
  second one is the document of the examples: the batch holds the empty record and then the
  record of the second identifier.\<close>

theorem fetch_paper_details_parse_error_witness:
  "fetch_paper_details garbled_libs ''31452104'' fresh_world
     = (Inr [],
        fresh_world\<lparr>requests := [(BASE_URL @ ''/efetch.fcgi'', fetch_params ''31452104'', 10)],
          logs := [(ERROR, ''Error parsing XML for paper 31452104: syntax error: line 1, column 0'')]\<rparr>)
   \<and> fetch_each garbled_libs [''31452104'', ''29360040''] fresh_world
     = (Inr [[], paper_details ''29360040'' article_xml],
        fresh_world\<lparr>requests := [(BASE_URL @ ''/efetch.fcgi'', fetch_params ''31452104'', 10),
                                  (BASE_URL @ ''/efetch.fcgi'', fetch_params ''29360040'', 10)],
          logs := [(ERROR, ''Error parsing XML for paper 31452104: syntax error: line 1, column 0'')]\<rparr>)"
proof -
  let ?w1 = "fresh_world\<lparr>requests := [(BASE_URL @ ''/efetch.fcgi'', fetch_params ''31452104'', 10)]\<rparr>"
  let ?w2 = "?w1\<lparr>logs := logs ?w1
      @ [(ERROR, ''Error parsing XML for paper '' @ ''31452104'' @ '': ''
                   @ ''syntax error: line 1, column 0'')]\<rparr>"
  have s: "safe_request garbled_libs (BASE_URL @ ''/efetch.fcgi'') (fetch_params ''31452104'') 3 2
             fresh_world
           = (Inr \<lparr>status_code = 200, content = ''<a>''\<rparr>, ?w1)"
    by (simp add: safe_request_def safe_request_from.simps attempt_result_def scripted_libs_def
          garbled_libs_def first_is_garbled_def ok_response_def raise_for_status_def
          fresh_world_def Let_def)
  have x: "ET_fromstring garbled_libs (content \<lparr>status_code = 200, content = ''<a>''\<rparr>)
           = Inl (ParseError ''syntax error: line 1, column 0'')"
    by (simp add: garbled_libs_def scripted_libs_def one_article_def shift_jis_body_def no_xml_def)
  have rest: "fetch_each garbled_libs [''29360040''] ?w2
      = (Inr [paper_details ''29360040'' article_xml],
         ?w2\<lparr>requests := requests ?w2
            @ [(BASE_URL @ ''/efetch.fcgi'', fetch_params ''29360040'', 10)]\<rparr>)"
    by (simp add: fetch_paper_details_def safe_request_def safe_request_from.simps
          attempt_result_def scripted_libs_def garbled_libs_def first_is_garbled_def
          ok_response_def raise_for_status_def fresh_world_def Let_def one_article_def)
  from fetch_paper_details_parse_error [OF s x, of "[''29360040'']"] rest
  show ?thesis by (simp add: fresh_world_def)
qed

text \<open>
  C6 as worded fails on a body that the parser cannot parse for another reason than its
  form: on a body that declares a multi-byte encoding the parser raises a
  \<^verbatim>\<open>ValueError\<close>, which is no \<^verbatim>\<open>ParseError\<close>; it leaves \<open>fetch_paper_details\<close> and
  ends the batch, where the wording has an empty record and the batch going on.
\<close>

theorem fetch_paper_details_parse_error_counterexample:
  "fetch_paper_details shift_jis_libs ''31452104'' fresh_world
     = (Inl (ValueError ''multi-byte encodings are not supported''),
        fresh_world\<lparr>requests := [(BASE_URL @ ''/efetch.fcgi'', fetch_params ''31452104'', 10)]\<rparr>)
   \<and> fetch_each shift_jis_libs [''31452104'', ''29360040''] fresh_world
     = (Inl (ValueError ''multi-byte encodings are not supported''),
        fresh_world\<lparr>requests := [(BASE_URL @ ''/efetch.fcgi'', fetch_params ''31452104'', 10)]\<rparr>)"
proof -
  let ?w1 = "fresh_world\<lparr>requests := [(BASE_URL @ ''/efetch.fcgi'', fetch_params ''31452104'', 10)]\<rparr>"
  have s: "safe_request shift_jis_libs (BASE_URL @ ''/efetch.fcgi'') (fetch_params ''31452104'') 3 2
             fresh_world
           = (Inr \<lparr>status_code = 200, content = shift_jis_body\<rparr>, ?w1)"
    by (simp add: safe_request_def safe_request_from.simps attempt_result_def scripted_libs_def
          shift_jis_libs_def ok_response_def raise_for_status_def fresh_world_def Let_def)
  have x: "ET_fromstring shift_jis_libs (content \<lparr>status_code = 200, content = shift_jis_body\<rparr>)
           = Inl (ValueError ''multi-byte encodings are not supported'')"
    by (simp add: shift_jis_libs_def scripted_libs_def one_article_def shift_jis_body_def)
  have n: "parse_error (ValueError ''multi-byte encodings are not supported'') = None"
    by simp
  from fetch_paper_details_parser_raises [OF s x n] show ?thesis by simp
qed

subsection \<open>Paths\<close>

lemma first_filter: "(case filter P xs of [] \<Rightarrow> None | m # ms \<Rightarrow> Some (f m)) = map_option f (find P xs)"
  by (induction xs) auto

lemma findtext_child: "findtext [Child t] a = child_text t a"
  by (simp add: findtext_def findall_def child_text_def first_filter)

lemma findtext_descendant:
  "findtext [Descendant t] root = map_option element_text (first_descendant t root)"
  by (simp add: findtext_def findall_def first_descendant_def first_filter)

lemma findtext_nested:
  "findtext [Descendant a, Child b] root = map_option element_text (first_nested a b root)"
proof -
  have "concat (map (select (Child b)) (filter (\<lambda>d. tag d = a) (descendants root)))
        = filter (\<lambda>c. tag c = b) (concat (map children (filter (\<lambda>d. tag d = a) (descendants root))))"
  proof -
    have "select (Child b) = (\<lambda>x. filter (\<lambda>c. tag c = b) (children x))"
      by (rule ext) simp
    then show ?thesis by (simp add: filter_concat comp_def)
  qed
  then show ?thesis
    by (simp add: findtext_def findall_def first_nested_def first_filter)
qed

subsection \<open>The loop over the author nodes\<close>

lemma author_step_authors: "fst (author_step acc a) = fst acc @ author_names a"
  by (cases "child_text ''CollectiveName'' a"; cases "child_text ''ForeName'' a";
      cases "child_text ''LastName'' a")
     (simp_all add: author_step_def Let_def findtext_child author_names_def names_from_parts_def)

lemma foldl_author_step:
  "fst (foldl author_step acc as) = fst acc @ concat (map author_names as)"
  by (induction as arbitrary: acc) (simp_all add: author_step_authors)

lemma fetch_paper_details_parsed:
  assumes "safe_request L (BASE_URL @ ''/efetch.fcgi'') (fetch_params paper_id) 3 2 w = (Inr r, w1)"
    and "ET_fromstring L (content r) = Inr root"
  shows "fetch_paper_details L paper_id w = (Inr (paper_details paper_id root), w1)"
  using assms by (simp add: fetch_paper_details_def)

lemma optional_is_optional_str: "is_optional_str (optional x)"
  by (cases x) simp_all

lemma paper_details_record: "paper_record (paper_details paper_id root)"
  by (simp add: paper_record_def has_def paper_details_def Let_def optional_is_optional_str)

subsection \<open>The document of the examples\<close>

lemma article_request:
  "safe_request article_libs (BASE_URL @ ''/efetch.fcgi'') (fetch_params ''31452104'') 3 2 fresh_world
     = (Inr \<lparr>status_code = 200, content = ''<PubmedArticleSet>''\<rparr>,
        fresh_world\<lparr>requests := [(BASE_URL @ ''/efetch.fcgi'', fetch_params ''31452104'', 10)]\<rparr>)"
  by (simp add: safe_request_def safe_request_from.simps attempt_result_def scripted_libs_def
        article_libs_def ok_response_def raise_for_status_def fresh_world_def Let_def)

lemma article_parse:
  "ET_fromstring article_libs (content \<lparr>status_code = 200, content = ''<PubmedArticleSet>''\<rparr>)
     = Inr article_xml"
  by (simp add: article_libs_def scripted_libs_def one_article_def)

lemma article_authors: "author_nodes article_xml =
   [Element ''Author'' None
                   [Element ''CollectiveName'' None [], leaf ''LastName'' ''Doe'',
                    leaf ''ForeName'' ''Jane'',
                    Element ''AffiliationInfo'' None
                      [leaf ''Affiliation'' ''Univ. of X'', leaf ''Email'' ''jane@x.org'']],
                 Element ''Author'' None [leaf ''CollectiveName'' ''WHO Group''],
                 Element ''Author'' None [leaf ''Initials'' ''Q'']]"
  by (simp add: author_nodes_def article_xml_def descendants_def leaf_def)

lemma article_author_names:
  "concat (map author_names (author_nodes article_xml)) = [''Jane Doe'', ''WHO Group'']"
  by (simp add: article_authors author_names_def names_from_parts_def child_text_def leaf_def
        element_text_def)

lemma article_year: "first_nested ''PubDate'' ''Year'' article_xml = Some (Element ''Year'' None [])"
  by (simp add: first_nested_def article_xml_def descendants_def leaf_def)

lemma article_medline:
  "first_descendant ''MedlineDate'' article_xml = Some (leaf ''MedlineDate'' ''2020 Spring'')"
  by (simp add: first_descendant_def article_xml_def descendants_def leaf_def)

lemma article_title:
  "first_descendant ''ArticleTitle'' article_xml = Some (leaf ''ArticleTitle'' ''On retries'')"
  by (simp add: first_descendant_def article_xml_def descendants_def leaf_def)

lemma article_email:
  "first_nested ''AffiliationInfo'' ''Email'' article_xml = Some (leaf ''Email'' ''jane@x.org'')"
  by (simp add: first_nested_def article_xml_def descendants_def leaf_def)

subsection \<open>Authors\<close>

text \<open>
  C5, as the program has it: the authors of the record are the contributions of the author
  nodes, in document order. A node contributes its collective name when that field is
  present and its text is not empty; otherwise "fore-name last-name" when both fields are
  present and neither text is empty; otherwise nothing. A field that is present with an
  empty text counts as missing.
\<close>

theorem fetch_paper_details_authors:
  assumes "safe_request L (BASE_URL @ ''/efetch.fcgi'') (fetch_params paper_id) 3 2 w = (Inr r, w1)"
    and "ET_fromstring L (content r) = Inr root"
  shows "fst (fetch_paper_details L paper_id w) = Inr (paper_details paper_id root)
       \<and> getitem (paper_details paper_id root) ''authors''
           = Inr (PList (concat (map author_names (author_nodes root))))"
  using fetch_paper_details_parsed [OF assms]
  by (simp add: paper_details_def Let_def getitem_def foldl_author_step findall_def author_nodes_def)

theorem fetch_paper_details_authors_witness:
  "fst (fetch_paper_details article_libs ''31452104'' fresh_world)
     = Inr (paper_details ''31452104'' article_xml)
   \<and> getitem (paper_details ''31452104'' article_xml) ''authors''
       = Inr (PList [''Jane Doe'', ''WHO Group''])"
  using fetch_paper_details_authors [OF article_request article_parse]
  by (simp add: article_author_names)

text \<open>
  C5 as worded fails on an author node whose collective-name field is present and empty:
  the wording makes that node contribute the empty string, and the program takes its
  fore name and last name instead.
\<close>

theorem fetch_paper_details_authors_counterexample:
  "fst (fetch_paper_details article_libs ''31452104'' fresh_world)
     = Inr (paper_details ''31452104'' article_xml)
   \<and> getitem (paper_details ''31452104'' article_xml) ''authors''
       = Inr (PList [''Jane Doe'', ''WHO Group''])
   \<and> concat (map spec_author_names (author_nodes article_xml)) = [[], ''WHO Group'']"
proof -
  have "getitem (paper_details ''31452104'' article_xml) ''authors''
     = Inr (PList (concat (map author_names (author_nodes article_xml))))"
    by (simp add: paper_details_def Let_def getitem_def foldl_author_step findall_def
          author_nodes_def)
  moreover have "concat (map spec_author_names (author_nodes article_xml)) = [[], ''WHO Group'']"
    by (simp add: article_authors spec_author_names_def child_text_def leaf_def element_text_def)
  ultimately show ?thesis
    using fetch_paper_details_parsed [OF article_request article_parse]
    by (simp add: article_author_names)
qed

subsection \<open>Title, date and email\<close>

text \<open>
  C9, as the program has it: the title is the text of the first article-title node among
  the descendants of the root, else absent; the date is the text of the first
  publication-year node when that text is not empty, and otherwise (no such node, or an
  empty one) the text of the first Medline-date node, else absent; the email is the text of
  the first email child of an affiliation-info node anywhere below the root, else absent.
\<close>

theorem fetch_paper_details_dates:
  assumes "safe_request L (BASE_URL @ ''/efetch.fcgi'') (fetch_params paper_id) 3 2 w = (Inr r, w1)"
    and "ET_fromstring L (content r) = Inr root"
  shows "fst (fetch_paper_details L paper_id w) = Inr (paper_details paper_id root)
       \<and> getitem (paper_details paper_id root) ''title''
           = Inr (optional (map_option element_text (first_descendant ''ArticleTitle'' root)))
       \<and> getitem (paper_details paper_id root) ''date''
           = Inr (optional
               (case map_option element_text (first_nested ''PubDate'' ''Year'' root) of
                  None \<Rightarrow> map_option element_text (first_descendant ''MedlineDate'' root)
                | Some y \<Rightarrow>
                    if y \<noteq> [] then Some y
                    else map_option element_text (first_descendant ''MedlineDate'' root)))
       \<and> getitem (paper_details paper_id root) ''corresponding_email''
           = Inr (optional (map_option element_text (first_nested ''AffiliationInfo'' ''Email'' root)))"
  using fetch_paper_details_parsed [OF assms]
  by (auto simp: paper_details_def Let_def getitem_def findtext_descendant findtext_nested py_or_def
        split: option.splits)

theorem fetch_paper_details_dates_witness:
  "fst (fetch_paper_details article_libs ''31452104'' fresh_world)
     = Inr (paper_details ''31452104'' article_xml)
   \<and> getitem (paper_details ''31452104'' article_xml) ''title'' = Inr (PStr ''On retries'')
   \<and> getitem (paper_details ''31452104'' article_xml) ''date'' = Inr (PStr ''2020 Spring'')
   \<and> getitem (paper_details ''31452104'' article_xml) ''corresponding_email''
       = Inr (PStr ''jane@x.org'')"
  using fetch_paper_details_dates [OF article_request article_parse]
  by (simp add: article_year article_medline article_title article_email element_text_def leaf_def)

text \<open>
  C9 as worded fails on a document whose first publication-year node is empty and which
  has a Medline date: the wording gives the (empty) year, the program the Medline date.
\<close>

theorem fetch_paper_details_dates_counterexample:
  "fst (fetch_paper_details article_libs ''31452104'' fresh_world)
     = Inr (paper_details ''31452104'' article_xml)
   \<and> getitem (paper_details ''31452104'' article_xml) ''date'' = Inr (PStr ''2020 Spring'')
   \<and> spec_date article_xml = Some []"
proof -
  have "findtext [Descendant ''PubDate'', Child ''Year''] article_xml = Some []"
    by (simp add: findtext_nested article_year element_text_def)
  moreover have "findtext [Descendant ''MedlineDate''] article_xml = Some ''2020 Spring''"
    by (simp add: findtext_descendant article_medline element_text_def leaf_def)
  ultimately have "getitem (paper_details ''31452104'' article_xml) ''date''
      = Inr (PStr ''2020 Spring'')"
    by (simp add: paper_details_def Let_def getitem_def py_or_def)
  moreover have "spec_date article_xml = Some []"
    by (simp add: spec_date_def article_year element_text_def)
  ultimately show ?thesis
    using fetch_paper_details_parsed [OF article_request article_parse] by simp
qed

section \<open>Properties of the exporter\<close>

text \<open>
  C10: on the empty list \<open>save_to_csv\<close> logs a warning and returns; the world changes
  in its log only, so no file is opened or written, and nothing is raised.
\<close>

theorem save_to_csv_no_papers:
  "save_to_csv L [] filename w
     = (Inr (), w\<lparr>logs := logs w @ [(WARNING, ''No paper details to save.'')]\<rparr>)"
  by (simp add: save_to_csv_def log_msg_def)

subsection \<open>Rows\<close>

lemma hasD: "has p k ok \<Longrightarrow> \<exists>v. map_of p k = Some v \<and> ok v"
  by (auto simp: has_def split: option.splits)

lemma is_strD: "is_str v \<Longrightarrow> \<exists>s. v = PStr s"
  by (cases v) auto

lemma is_optional_strD: "is_optional_str v \<Longrightarrow> v = PNone \<or> (\<exists>s. v = PStr s)"
  by (cases v) auto

lemma is_str_listD: "is_str_list v \<Longrightarrow> \<exists>xs. v = PList xs"
  by (cases v) auto

lemma row_of_paper_record:
  assumes "paper_record p"
  shows "\<exists>cells. row_of p = Inr cells \<and> map (csv_cell L) cells = expected_row p"
proof -
  from assms obtain i where i: "map_of p ''id'' = Some (PStr i)"
    unfolding paper_record_def by (metis hasD is_strD)
  from assms obtain t where t: "map_of p ''title'' = Some t" "t = PNone \<or> (\<exists>s. t = PStr s)"
    unfolding paper_record_def by (metis hasD is_optional_strD)
  from assms obtain d where d: "map_of p ''date'' = Some d" "d = PNone \<or> (\<exists>s. d = PStr s)"
    unfolding paper_record_def by (metis hasD is_optional_strD)
  from assms obtain a where a: "map_of p ''authors'' = Some (PList a)"
    unfolding paper_record_def by (metis hasD is_str_listD)
  from assms obtain f where f: "map_of p ''affiliations'' = Some (PList f)"
    unfolding paper_record_def by (metis hasD is_str_listD)
  from assms obtain e where e: "map_of p ''corresponding_email'' = Some e"
      "e = PNone \<or> (\<exists>s. e = PStr s)"
    unfolding paper_record_def by (metis hasD is_optional_strD)
  have row: "row_of p = Inr [PStr i, t, d, PStr (join ''; '' a), PStr (join ''; '' f),
                          if pyval_truthy e then e else PStr ''N/A'']"
    by (simp add: row_of_def bind_exn_def getitem_def i t d a f e)
  have "csv_cell L t = text_cell p ''title''" using t by (auto simp: text_cell_def)
  moreover have "csv_cell L d = text_cell p ''date''" using d by (auto simp: text_cell_def)
  moreover have "csv_cell L (if pyval_truthy e then e else PStr ''N/A'') = email_cell p"
    using e by (auto simp: email_cell_def)
  ultimately have "map (csv_cell L) [PStr i, t, d, PStr (join ''; '' a), PStr (join ''; '' f),
                          if pyval_truthy e then e else PStr ''N/A''] = expected_row p"
    by (simp add: expected_row_def text_cell_def joined_cell_def i a f)
  with row show ?thesis by blast
qed

lemma write_rows_records:
  "\<forall>p\<in>set pre. paper_record p \<Longrightarrow>
     write_rows L (pre @ rest) rows = write_rows L rest (rows @ map expected_row pre)"
proof (induction pre arbitrary: rows)
  case Nil
  show ?case by simp
next
  case (Cons p pre)
  then obtain cells where "row_of p = Inr cells" "map (csv_cell L) cells = expected_row p"
    using row_of_paper_record [of p L] by auto
  with Cons show ?case by simp
qed

lemma rows_ab: "expected_row paper_a
      = [''31452104'', ''On retries'', [], ''Jane Doe; WHO Group'', ''Univ. of X'', ''N/A'']"
  "expected_row paper_b = [''29360040'', [], ''2020 Spring'', [], [], ''x@y.org'']"
  by (simp_all add: expected_row_def text_cell_def joined_cell_def email_cell_def paper_a_def paper_b_def)

lemma records_ab: "paper_record paper_a" "paper_record paper_b"
  by (simp_all add: paper_record_def has_def paper_a_def paper_b_def)

lemma article_open: "open_ok article_libs ''output.csv''"
  by (simp add: article_libs_def scripted_libs_def)

text \<open>
  C3, as the program has it: for a non-empty list of paper records and a file that can be
  opened, \<open>save_to_csv\<close> writes the header row id, title, date, authors, affiliations,
  corresponding_email and then one row per record, in the order of the list: the two lists
  joined with "; ", N/A for an email that is absent or empty, an empty cell for an absent
  title or date.
\<close>

theorem save_to_csv_rows:
  assumes "papers \<noteq> []" and "\<forall>p\<in>set papers. paper_record p" and "open_ok L filename"
  shows "save_to_csv L papers filename w
           = (Inr (),
              w\<lparr>logs := logs w @ [(INFO, ''Results saved to '' @ filename @ ''.'')],
                files := (files w)(filename \<mapsto>
                  [''id'', ''title'', ''date'', ''authors'', ''affiliations'',
                   ''corresponding_email''] # map expected_row papers)\<rparr>)"
proof -
  have "write_rows L papers [headers] = (None, [headers] @ map expected_row papers)"
    using write_rows_records [OF assms(2), of L "[]" "[headers]"] by simp
  with assms(1,3) show ?thesis
    by (simp add: save_to_csv_def log_msg_def headers_def)
qed

theorem save_to_csv_rows_witness:
  "save_to_csv article_libs [paper_a, paper_b] ''output.csv'' fresh_world
     = (Inr (),
        fresh_world\<lparr>logs := [(INFO, ''Results saved to output.csv.'')],
          files := [''output.csv'' \<mapsto>
            [[''id'', ''title'', ''date'', ''authors'', ''affiliations'', ''corresponding_email''],
             [''31452104'', ''On retries'', [], ''Jane Doe; WHO Group'', ''Univ. of X'', ''N/A''],
             [''29360040'', [], ''2020 Spring'', [], [], ''x@y.org'']]]\<rparr>)"
proof -
  have "\<forall>p\<in>set [paper_a, paper_b]. paper_record p" by (simp add: records_ab)
  from save_to_csv_rows [OF _ this article_open, of fresh_world]
  show ?thesis by (simp add: rows_ab fresh_world_def)
qed

text \<open>
  C3 as worded fails on the name of the first column: the file starts with \<^verbatim>\<open>id\<close>,
  not with \<^verbatim>\<open>identifier\<close>.
\<close>

theorem save_to_csv_rows_counterexample:
  "files (snd (save_to_csv article_libs [paper_a, paper_b] ''output.csv'' fresh_world)) ''output.csv''
     = Some [[''id'', ''title'', ''date'', ''authors'', ''affiliations'', ''corresponding_email''],
             [''31452104'', ''On retries'', [], ''Jane Doe; WHO Group'', ''Univ. of X'', ''N/A''],
             [''29360040'', [], ''2020 Spring'', [], [], ''x@y.org'']]
   \<and> files (snd (save_to_csv article_libs [paper_a, paper_b] ''output.csv'' fresh_world)) ''output.csv''
     \<noteq> Some (spec_headers # map expected_row [paper_a, paper_b])"
proof -
  have "write_rows article_libs [paper_a, paper_b] [headers]
      = (None, [headers] @ map expected_row [paper_a, paper_b])"
    using write_rows_records [of "[paper_a, paper_b]" article_libs "[]" "[headers]"]
    by (simp add: records_ab)
  then show ?thesis
    by (simp add: save_to_csv_def article_open log_msg_def headers_def spec_headers_def rows_ab)
qed

text \<open>
  C4: a list that holds the empty record, the one \<open>fetch_paper_details\<close> returns for
  an unparsable response, makes \<open>save_to_csv\<close> raise \<^verbatim>\<open>KeyError\<close> on the key
  \<^verbatim>\<open>id\<close>; the file then holds the header and the rows of the records before the
  empty one, and nothing of what follows it.
\<close>

theorem save_to_csv_empty_record:
  assumes "\<forall>p\<in>set pre. paper_record p" and "open_ok L filename"
  shows "save_to_csv L (pre @ [] # post) filename w
           = (Inl (KeyError ''id''),
              w\<lparr>files := (files w)(filename \<mapsto>
                  [''id'', ''title'', ''date'', ''authors'', ''affiliations'',
                   ''corresponding_email''] # map expected_row pre)\<rparr>)"
proof -
  have "row_of [] = Inl (KeyError ''id'')"
    by (simp add: row_of_def bind_exn_def getitem_def)
  then have "write_rows L (pre @ [] # post) [headers]
      = (Some (KeyError ''id''), [headers] @ map expected_row pre)"
    using write_rows_records [OF assms(1), of L "[] # post" "[headers]"] by simp
  with assms(2) show ?thesis
    by (simp add: save_to_csv_def headers_def)
qed

theorem save_to_csv_empty_record_witness:
  "fst (fetch_paper_details (scripted_libs (\<lambda>n. ok_response ''<a>'') no_xml no_json) ''29360040''
          fresh_world) = Inr []
   \<and> save_to_csv article_libs [paper_a, [], paper_b] ''output.csv'' fresh_world
     = (Inl (KeyError ''id''),
        fresh_world\<lparr>files := [''output.csv'' \<mapsto>
            [[''id'', ''title'', ''date'', ''authors'', ''affiliations'', ''corresponding_email''],
             [''31452104'', ''On retries'', [], ''Jane Doe; WHO Group'', ''Univ. of X'', ''N/A'']]]\<rparr>)"
proof -
  have "\<forall>p\<in>set [paper_a]. paper_record p" by (simp add: records_ab)
  from save_to_csv_empty_record [OF this article_open, of "[paper_b]" fresh_world]
  have "save_to_csv article_libs [paper_a, [], paper_b] ''output.csv'' fresh_world
     = (Inl (KeyError ''id''),
        fresh_world\<lparr>files := [''output.csv'' \<mapsto>
            [[''id'', ''title'', ''date'', ''authors'', ''affiliations'', ''corresponding_email''],
             [''31452104'', ''On retries'', [], ''Jane Doe; WHO Group'', ''Univ. of X'', ''N/A'']]]\<rparr>)"
    by (simp add: rows_ab fresh_world_def)
  moreover have "fst (fetch_paper_details (scripted_libs (\<lambda>n. ok_response ''<a>'') no_xml no_json)
      ''29360040'' fresh_world) = Inr []"
    by (simp add: fetch_paper_details_def safe_request_def safe_request_from.simps
          attempt_result_def scripted_libs_def ok_response_def raise_for_status_def no_xml_def
          fresh_world_def Let_def)
  ultimately show ?thesis by simp
qed

end
